theory Spec2Isabelle
  imports Main "HOL-Library.Multiset" "HOL-Library.Code_Target_Nat"
begin

section \<open>JavaScript strings\<close>

text \<open>
  A JavaScript string is a sequence of UTF-16 code units; a code unit is modelled as a
  natural number and a string as a list of them.  \<open>asc\<close> writes an ASCII literal.
\<close>

type_synonym ustring = "nat list"

abbreviation asc :: "string \<Rightarrow> ustring" where
  "asc s \<equiv> map of_char s"

abbreviation SLASH :: nat where "SLASH \<equiv> 47"
abbreviation BACKSLASH :: nat where "BACKSLASH \<equiv> 92"
abbreviation DOT :: nat where "DOT \<equiv> 46"

text \<open>\<open>s.startsWith(p)\<close>\<close>

definition startsWith :: "ustring \<Rightarrow> ustring \<Rightarrow> bool" where
  "startsWith s p = (take (length p) s = p)"

text \<open>\<open>s.includes(sub)\<close>: \<open>sub\<close> occurs in \<open>s\<close> at some position.\<close>

fun includesStr :: "ustring \<Rightarrow> ustring \<Rightarrow> bool" where
  "includesStr [] sub = (sub = [])"
| "includesStr (x # xs) sub = (startsWith (x # xs) sub \<or> includesStr xs sub)"

text \<open>\<open>s.split(c)\<close> for a one-unit separator: never empty, \<open>''''.split(c) = ['''']\<close>.\<close>

fun splitOn :: "nat \<Rightarrow> ustring \<Rightarrow> ustring list" where
  "splitOn c [] = [[]]"
| "splitOn c (x # xs) =
     (if x = c then [] # splitOn c xs
      else (case splitOn c xs of [] \<Rightarrow> [[x]] | s # ss \<Rightarrow> (x # s) # ss))"

text \<open>\<open>segs.join(sep)\<close>\<close>

fun joinWith :: "ustring \<Rightarrow> ustring list \<Rightarrow> ustring" where
  "joinWith sep [] = []"
| "joinWith sep [s] = s"
| "joinWith sep (s # t # ss) = s @ sep @ joinWith sep (t # ss)"

text \<open>
  \<open>Number.parseInt(s)\<close> with no radix: leading white space is skipped, then an optional
  sign, then an optional \<open>0x\<close>/\<open>0X\<close> that switches to radix 16, then the longest run of
  digits; no digit gives \<open>NaN\<close>, modelled as \<open>None\<close>.  The value is an exact integer here:
  the rounding of a result beyond \<open>2^53\<close> to a double is not modelled.
\<close>

definition isWhiteSpace :: "nat \<Rightarrow> bool" where
  "isWhiteSpace c = (c \<in> set [9, 10, 11, 12, 13, 32, 160, 5760, 8232, 8233, 8239, 8287, 12288, 65279]
      \<or> (8192 \<le> c \<and> c \<le> 8202))"

definition digitValue :: "nat \<Rightarrow> nat option" where
  "digitValue c =
     (if 48 \<le> c \<and> c \<le> 57 then Some (c - 48)
      else if 97 \<le> c \<and> c \<le> 122 then Some (c - 87)
      else if 65 \<le> c \<and> c \<le> 90 then Some (c - 55)
      else None)"

fun parseDigits :: "nat \<Rightarrow> ustring \<Rightarrow> nat option \<Rightarrow> nat option" where
  "parseDigits radix [] acc = acc"
| "parseDigits radix (c # cs) acc =
     (case digitValue c of
        None \<Rightarrow> acc
      | Some d \<Rightarrow>
          if d < radix
          then parseDigits radix cs (Some ((case acc of None \<Rightarrow> 0 | Some a \<Rightarrow> a) * radix + d))
          else acc)"

definition parseInt :: "ustring \<Rightarrow> int option" where
  "parseInt s =
     (let t = dropWhile isWhiteSpace s;
          neg = (t \<noteq> [] \<and> hd t = 45);
          u = (if t \<noteq> [] \<and> (hd t = 45 \<or> hd t = 43) then tl t else t);
          hex = (startsWith u (asc ''0x'') \<or> startsWith u (asc ''0X''));
          v = (if hex then parseDigits 16 (drop 2 u) None else parseDigits 10 u None)
      in case v of None \<Rightarrow> None | Some n \<Rightarrow> Some (if neg then - int n else int n))"

section \<open>The \<open>path\<close> module (POSIX)\<close>

text \<open>
  Node's \<open>path\<close> functions are modelled after their POSIX implementation, on the
  segments between slashes.  \<open>normalizeSegs\<close> is \<open>normalizeString\<close>: an empty segment
  and \<open>.\<close> are dropped; \<open>..\<close> removes the segment before it unless there is none or it is
  \<open>..\<close> itself, in which case it is kept when \<open>allowAboveRoot\<close> holds and dropped
  otherwise.  The accumulator holds the segments kept so far, in order.
\<close>

fun normalizeSegs :: "bool \<Rightarrow> ustring list \<Rightarrow> ustring list \<Rightarrow> ustring list" where
  "normalizeSegs allowAboveRoot res [] = res"
| "normalizeSegs allowAboveRoot res (s # ss) =
     (if s = [] \<or> s = asc ''.'' then normalizeSegs allowAboveRoot res ss
      else if s = asc ''..'' then
        (if res \<noteq> [] \<and> last res \<noteq> asc ''..'' then normalizeSegs allowAboveRoot (butlast res) ss
         else if allowAboveRoot then normalizeSegs allowAboveRoot (res @ [asc ''..'']) ss
         else normalizeSegs allowAboveRoot res ss)
      else normalizeSegs allowAboveRoot (res @ [s]) ss)"

definition normalizeString :: "ustring \<Rightarrow> bool \<Rightarrow> ustring" where
  "normalizeString p allowAboveRoot =
     joinWith (asc ''/'') (normalizeSegs allowAboveRoot [] (splitOn SLASH p))"

definition isAbsolute :: "ustring \<Rightarrow> bool" where
  "isAbsolute p = (p \<noteq> [] \<and> hd p = SLASH)"

definition normalize :: "ustring \<Rightarrow> ustring" where
  "normalize p =
     (if p = [] then asc ''.''
      else
        let trailingSeparator = (last p = SLASH);
            r = normalizeString p (\<not> isAbsolute p)
        in if r = [] then (if isAbsolute p then asc ''/'' else if trailingSeparator then asc ''./'' else asc ''.'')
           else (if isAbsolute p then asc ''/'' else []) @ r @ (if trailingSeparator then asc ''/'' else []))"

text \<open>\<open>path.join(...parts)\<close>: the non-empty parts joined by a slash, then normalised.\<close>

definition join :: "ustring list \<Rightarrow> ustring" where
  "join parts =
     (let joined = filter (\<lambda>s. s \<noteq> []) parts
      in if joined = [] then asc ''.'' else normalize (joinWith (asc ''/'') joined))"

text \<open>
  \<open>path.resolve(p)\<close> with one argument; \<open>cwd\<close> is \<open>process.cwd()\<close>.  The result has no
  trailing slash.
\<close>

definition resolve :: "ustring \<Rightarrow> ustring \<Rightarrow> ustring" where
  "resolve cwd p =
     (let r1 = (if p = [] then [] else p @ asc ''/'');
          r2 = (if isAbsolute p \<or> cwd = [] then r1 else cwd @ asc ''/'' @ r1);
          resolvedAbsolute = (if isAbsolute p \<or> cwd = [] then isAbsolute p else isAbsolute cwd);
          r = normalizeString r2 (\<not> resolvedAbsolute)
      in if resolvedAbsolute then asc ''/'' @ r
         else if r = [] then asc ''.'' else r)"

text \<open>
  The part of a path after its last slash, trailing slashes ignored: what \<open>path.basename\<close>
  with no suffix returns and what \<open>path.extname\<close> looks at.
\<close>

definition lastPortion :: "ustring \<Rightarrow> ustring" where
  "lastPortion p = last (splitOn SLASH (rev (dropWhile (\<lambda>c. c = SLASH) (rev p))))"

text \<open>
  \<open>path.extname(p)\<close>: from the last dot of the last portion to its end; empty when the
  portion has no dot, when its only dot is its first character, or when it is \<open>..\<close>.
\<close>

definition extnamePortion :: "ustring \<Rightarrow> ustring" where
  "extnamePortion b =
     (let afterDot = rev (takeWhile (\<lambda>c. c \<noteq> DOT) (rev b))
      in if DOT \<notin> set b \<or> length afterDot + 1 = length b \<or> b = asc ''..'' then []
         else DOT # afterDot)"

definition extname :: "ustring \<Rightarrow> ustring" where
  "extname p = extnamePortion (lastPortion p)"

text \<open>\<open>path.basename(p, ext)\<close>: the last portion, without \<open>ext\<close> when it ends in it and is more than it.\<close>

definition basename :: "ustring \<Rightarrow> ustring \<Rightarrow> ustring" where
  "basename p ext =
     (let b = lastPortion p
      in if ext \<noteq> [] \<and> ext = p then []
         else if ext \<noteq> [] \<and> length ext < length b \<and> drop (length b - length ext) b = ext
         then take (length b - length ext) b else b)"

text \<open>
  \<open>s.replace(/^(\.\.[/\\])+/, "")\<close>: the longest run of \<open>../\<close> and \<open>..\\<close> at the start of
  the string is removed.
\<close>

fun stripLeadingDotDot :: "ustring \<Rightarrow> ustring" where
  "stripLeadingDotDot (a # b # c # rest) =
     (if a = DOT \<and> b = DOT \<and> (c = SLASH \<or> c = BACKSLASH) then stripLeadingDotDot rest
      else a # b # c # rest)"
| "stripLeadingDotDot s = s"

section \<open>The listing route\<close>

text \<open>
  What the route takes from outside the repository: \<open>String.prototype.toLowerCase\<close>,
  \<open>String.prototype.localeCompare\<close> (both depend on Unicode tables and the locale) and
  \<open>process.cwd()\<close>.  They are parameters of the model.
\<close>

record platform =
  toLowerCase :: "ustring \<Rightarrow> ustring"
  localeCompare :: "ustring \<Rightarrow> ustring \<Rightarrow> int"
  cwd :: ustring

text \<open>
  The file system as one request sees it.  \<open>fs_access\<close> says whether \<open>fs.access\<close>
  succeeds, \<open>fs_stat\<close> and \<open>fs_readdir\<close> return \<open>None\<close> where the call throws.
  A \<open>Dirent\<close> that is neither a file nor a directory (a symbolic link, a socket) is
  \<open>DirentOther\<close>.
\<close>

record stats =
  st_isDirectory :: bool
  st_size :: nat
  st_mtime :: ustring

datatype dirent_kind = DirentFile | DirentDirectory | DirentOther

record dirent =
  d_name :: ustring
  d_kind :: dirent_kind

record filesystem =
  fs_access :: "ustring \<Rightarrow> bool"
  fs_stat :: "ustring \<Rightarrow> stats option"
  fs_readdir :: "ustring \<Rightarrow> dirent list option"

datatype file_type = TFile | TDirectory

record FileItem =
  name :: ustring
  type :: file_type
  size :: nat
  lastModified :: ustring
  path :: ustring
  extension :: "ustring option"

text \<open>The query parameters; \<open>None\<close> is a parameter the URL does not have.\<close>

record list_request =
  q_path :: "ustring option"
  q_page :: "ustring option"
  q_limit :: "ustring option"
  q_search :: "ustring option"

text \<open>The JSON body and the HTTP status of the answer.\<close>

record list_response =
  status :: nat
  files :: "FileItem list"
  total :: nat
  page :: int
  hasMore :: bool
  error :: "ustring option"

text \<open>The calls made to the file system, in order, and the lines written to the console.\<close>

datatype fs_op = Access ustring | Stat ustring | Readdir ustring

datatype console_line = ConsoleWarn ustring | ConsoleError ustring

record list_outcome =
  response :: list_response
  ops :: "fs_op list"
  console :: "console_line list"

text \<open>\<open>searchParams.get(k) || d\<close>: a missing or empty parameter gives the default.\<close>

definition getOr :: "ustring option \<Rightarrow> ustring \<Rightarrow> ustring" where
  "getOr v d = (case v of None \<Rightarrow> d | Some s \<Rightarrow> if s = [] then d else s)"

text \<open>
  \<open>isNaN(page) || page < 1 ? 1 : page\<close> and
  \<open>isNaN(limit) || limit < 1 ? 20 : Math.min(limit, 100)\<close>
\<close>

definition safePageOf :: "int option \<Rightarrow> int" where
  "safePageOf parsed = (case parsed of None \<Rightarrow> 1 | Some p \<Rightarrow> if p < 1 then 1 else p)"

definition safeLimitOf :: "int option \<Rightarrow> int" where
  "safeLimitOf parsed = (case parsed of None \<Rightarrow> 20 | Some l \<Rightarrow> if l < 1 then 20 else min l 100)"

text \<open>\<open>path.normalize(requestedPath).replace(/^(\.\.[/\\])+/, "")\<close>\<close>

definition safePathOf :: "ustring \<Rightarrow> ustring" where
  "safePathOf requestedPath = stripLeadingDotDot (normalize requestedPath)"

text \<open>\<open>s.replace(/\\/g, "/")\<close>\<close>

definition backslashesToSlashes :: "ustring \<Rightarrow> ustring" where
  "backslashesToSlashes s = map (\<lambda>c. if c = BACKSLASH then SLASH else c) s"

text \<open>
  One turn of the loop over the directory's entries: the entry is pushed, skipped by a
  \<open>continue\<close>, or its \<open>fs.stat\<close> throws and the \<open>catch\<close> writes a warning.
\<close>

datatype entry_result = Pushed FileItem | Skipped | StatFailed ustring

definition processEntry ::
  "platform \<Rightarrow> filesystem \<Rightarrow> ustring \<Rightarrow> ustring \<Rightarrow> ustring \<Rightarrow> dirent \<Rightarrow> entry_result" where
  "processEntry pf fs fullPath safePath search entry =
     (let entryPath = join [fullPath, d_name entry];
          relativePath = backslashesToSlashes (join [safePath, d_name entry])
      in case fs_stat fs entryPath of
           None \<Rightarrow> StatFailed entryPath
         | Some st \<Rightarrow>
             if search \<noteq> [] \<and> \<not> includesStr (toLowerCase pf (d_name entry)) (toLowerCase pf search)
             then Skipped
             else if startsWith (d_name entry) (asc ''.'') then Skipped
             else Pushed \<lparr> name = d_name entry,
                    type = (if d_kind entry = DirentDirectory then TDirectory else TFile),
                    size = st_size st,
                    lastModified = st_mtime st,
                    path = (if startsWith relativePath (asc ''/'') then relativePath
                            else asc ''/'' @ relativePath),
                    extension = (if d_kind entry = DirentFile
                                 then Some (drop 1 (extname (d_name entry))) else None) \<rparr>)"

fun pushedItems :: "entry_result list \<Rightarrow> FileItem list" where
  "pushedItems [] = []"
| "pushedItems (Pushed item # rs) = item # pushedItems rs"
| "pushedItems (_ # rs) = pushedItems rs"

fun statWarnings :: "entry_result list \<Rightarrow> console_line list" where
  "statWarnings [] = []"
| "statWarnings (StatFailed entryPath # rs) =
     ConsoleWarn (asc ''Failed to stat '' @ entryPath @ asc '':'') # statWarnings rs"
| "statWarnings (_ # rs) = statWarnings rs"

text \<open>
  The comparison function given to \<open>files.sort\<close>: negative when \<open>a\<close> goes first.
\<close>

definition compareItems :: "platform \<Rightarrow> FileItem \<Rightarrow> FileItem \<Rightarrow> int" where
  "compareItems pf a b =
     (if type a \<noteq> type b then (if type a = TDirectory then - 1 else 1)
      else localeCompare pf (name a) (name b))"

text \<open>
  \<open>Array.prototype.sort\<close> is stable; with a consistent comparison function its result is
  the stable insertion sort's: an element goes before the first later element it does
  not compare greater than.
\<close>

fun insertItem :: "('a \<Rightarrow> 'a \<Rightarrow> int) \<Rightarrow> 'a \<Rightarrow> 'a list \<Rightarrow> 'a list" where
  "insertItem cmp x [] = [x]"
| "insertItem cmp x (y # ys) = (if cmp x y \<le> 0 then x # y # ys else y # insertItem cmp x ys)"

definition sortBy :: "('a \<Rightarrow> 'a \<Rightarrow> int) \<Rightarrow> 'a list \<Rightarrow> 'a list" where
  "sortBy cmp xs = foldr (insertItem cmp) xs []"

text \<open>\<open>Array.prototype.slice(start, end)\<close> on integer arguments.\<close>

definition slice :: "'a list \<Rightarrow> int \<Rightarrow> int \<Rightarrow> 'a list" where
  "slice xs start end' =
     (let len = int (length xs);
          k = (if start < 0 then max (len + start) 0 else min start len);
          final = (if end' < 0 then max (len + end') 0 else min end' len)
      in take (nat (final - k)) (drop (nat k) xs))"

definition errorResponse :: "nat \<Rightarrow> int \<Rightarrow> ustring \<Rightarrow> list_response" where
  "errorResponse st safePage msg =
     \<lparr> status = st, files = [], total = 0, page = safePage, hasMore = False, error = Some msg \<rparr>"

text \<open>
  The \<open>GET\<close> handler.  \<open>root\<close> is \<open>STATIC_FILES_ROOT\<close>.  The branch that creates demo
  files when the root is \<open>./public\<close> has a \<open>try\<close> of its own and does not change the
  answer; it is left out, and the snapshot is the file system after it.
\<close>

definition GET :: "platform \<Rightarrow> ustring \<Rightarrow> filesystem \<Rightarrow> list_request \<Rightarrow> list_outcome" where
  "GET pf root fs req =
     (let requestedPath = getOr (q_path req) (asc ''/'');
          parsedPage = parseInt (getOr (q_page req) (asc ''1''));
          parsedLimit = parseInt (getOr (q_limit req) (asc ''20''));
          search = getOr (q_search req) [];
          safePage = safePageOf parsedPage;
          safeLimit = safeLimitOf parsedLimit;
          safePath = safePathOf requestedPath;
          fullPath = join [root, safePath]
      in if \<not> fs_access fs root then
           \<lparr> response = errorResponse 404 safePage (asc ''Root directory not found: '' @ root),
             ops = [Access root],
             console = [ConsoleError (asc ''Root directory does not exist: '' @ root)] \<rparr>
         else
           let resolvedPath = resolve (cwd pf) fullPath;
               resolvedRoot = resolve (cwd pf) root
           in if \<not> startsWith resolvedPath resolvedRoot then
                \<lparr> response = errorResponse 400 safePage (asc ''Invalid path''),
                  ops = [Access root], console = [] \<rparr>
              else
                (case fs_stat fs fullPath of
                   None \<Rightarrow>
                     \<lparr> response = errorResponse 404 safePage (asc ''Directory not accessible: '' @ fullPath),
                       ops = [Access root, Stat fullPath],
                       console = [ConsoleError (asc ''Failed to read directory '' @ fullPath @ asc '':'')] \<rparr>
                 | Some dirStats \<Rightarrow>
                     if \<not> st_isDirectory dirStats then
                       \<lparr> response = errorResponse 400 safePage (asc ''Path is not a directory''),
                         ops = [Access root, Stat fullPath], console = [] \<rparr>
                     else
                       (case fs_readdir fs fullPath of
                          None \<Rightarrow>
                            \<lparr> response = errorResponse 404 safePage (asc ''Directory not accessible: '' @ fullPath),
                              ops = [Access root, Stat fullPath, Readdir fullPath],
                              console = [ConsoleError (asc ''Failed to read directory '' @ fullPath @ asc '':'')] \<rparr>
                        | Some entries \<Rightarrow>
                            let results = map (processEntry pf fs fullPath safePath search) entries;
                                sortedFiles = sortBy (compareItems pf) (pushedItems results);
                                totalCount = length sortedFiles;
                                startIndex = (safePage - 1) * safeLimit;
                                endIndex = startIndex + safeLimit
                            in \<lparr> response =
                                   \<lparr> status = 200, files = slice sortedFiles startIndex endIndex,
                                     total = totalCount, page = safePage,
                                     hasMore = (endIndex < int totalCount), error = None \<rparr>,
                                 ops = [Access root, Stat fullPath, Readdir fullPath]
                                       @ map (\<lambda>e. Stat (join [fullPath, d_name e])) entries,
                                 console = statWarnings results \<rparr>)))"

section \<open>What a listing returns\<close>

text \<open>
  Names for the values the handler computes on the way: the parsed parameters, the joined
  path, and the sorted array \<open>files\<close> before it is cut into a page.
\<close>

definition pageOf :: "list_request \<Rightarrow> int" where
  "pageOf req = safePageOf (parseInt (getOr (q_page req) (asc ''1'')))"

definition limitOf :: "list_request \<Rightarrow> int" where
  "limitOf req = safeLimitOf (parseInt (getOr (q_limit req) (asc ''20'')))"

definition fullPathOf :: "ustring \<Rightarrow> list_request \<Rightarrow> ustring" where
  "fullPathOf root req = join [root, safePathOf (getOr (q_path req) (asc ''/''))]"

definition entryResults :: "platform \<Rightarrow> ustring \<Rightarrow> filesystem \<Rightarrow> list_request \<Rightarrow> dirent list \<Rightarrow> entry_result list" where
  "entryResults pf root fs req entries =
     map (processEntry pf fs (fullPathOf root req) (safePathOf (getOr (q_path req) (asc ''/'')))
            (getOr (q_search req) [])) entries"

definition sortedListing :: "platform \<Rightarrow> ustring \<Rightarrow> filesystem \<Rightarrow> list_request \<Rightarrow> dirent list \<Rightarrow> FileItem list" where
  "sortedListing pf root fs req entries =
     sortBy (compareItems pf) (pushedItems (entryResults pf root fs req entries))"

text \<open>
  The request gets as far as the loop over \<open>entries\<close>: the root is accessible, the
  containment test passes, the joined path is a directory and reading it gives \<open>entries\<close>.
\<close>

definition reachesListing :: "platform \<Rightarrow> ustring \<Rightarrow> filesystem \<Rightarrow> list_request \<Rightarrow> dirent list \<Rightarrow> bool" where
  "reachesListing pf root fs req entries =
     (fs_access fs root
      \<and> startsWith (resolve (cwd pf) (fullPathOf root req)) (resolve (cwd pf) root)
      \<and> (case fs_stat fs (fullPathOf root req) of None \<Rightarrow> False | Some st \<Rightarrow> st_isDirectory st)
      \<and> fs_readdir fs (fullPathOf root req) = Some entries)"

section \<open>A concrete platform and directory\<close>

text \<open>
  Lower-casing of the ASCII letters and comparison by code units stand in for
  \<open>toLowerCase\<close> and \<open>localeCompare\<close> where a concrete platform is needed.
\<close>

definition asciiLower :: "ustring \<Rightarrow> ustring" where
  "asciiLower s = map (\<lambda>c. if 65 \<le> c \<and> c \<le> 90 then c + 32 else c) s"

fun codeUnitCompare :: "ustring \<Rightarrow> ustring \<Rightarrow> int" where
  "codeUnitCompare [] [] = 0"
| "codeUnitCompare [] (y # ys) = - 1"
| "codeUnitCompare (x # xs) [] = 1"
| "codeUnitCompare (x # xs) (y # ys) =
     (if x < y then - 1 else if y < x then 1 else codeUnitCompare xs ys)"

definition demoPlatform :: platform where
  "demoPlatform = \<lparr> toLowerCase = asciiLower, localeCompare = codeUnitCompare, cwd = asc ''/app'' \<rparr>"

text \<open>
  The root \<open>/data\<close> holds the directory \<open>docs\<close>, the files \<open>a.txt\<close> and \<open>b.txt\<close>, the
  hidden file \<open>.env\<close> and the symbolic link \<open>gone\<close> whose target is missing.
\<close>

definition demoStat :: "ustring \<Rightarrow> stats option" where
  "demoStat p =
     (if p = asc ''/data'' \<or> p = asc ''/data/'' \<or> p = asc ''/data/docs''
      then Some \<lparr> st_isDirectory = True, st_size = 4096, st_mtime = asc ''2025-06-27T00:00:00.000Z'' \<rparr>
      else if p = asc ''/data/a.txt'' \<or> p = asc ''/data/b.txt'' \<or> p = asc ''/data/.env''
      then Some \<lparr> st_isDirectory = False, st_size = 5, st_mtime = asc ''2025-06-27T00:00:00.000Z'' \<rparr>
      else None)"

definition demoReaddir :: "ustring \<Rightarrow> dirent list option" where
  "demoReaddir p =
     (if p = asc ''/data'' \<or> p = asc ''/data/''
      then Some [\<lparr> d_name = asc ''b.txt'', d_kind = DirentFile \<rparr>,
                 \<lparr> d_name = asc ''gone'', d_kind = DirentOther \<rparr>,
                 \<lparr> d_name = asc ''.env'', d_kind = DirentFile \<rparr>,
                 \<lparr> d_name = asc ''a.txt'', d_kind = DirentFile \<rparr>,
                 \<lparr> d_name = asc ''docs'', d_kind = DirentDirectory \<rparr>]
      else if p = asc ''/data/docs'' then Some []
      else None)"

definition demoFs :: filesystem where
  "demoFs = \<lparr> fs_access = (\<lambda>p. demoStat p \<noteq> None), fs_stat = demoStat, fs_readdir = demoReaddir \<rparr>"

definition demoRequest :: "string \<Rightarrow> string \<Rightarrow> string \<Rightarrow> list_request" where
  "demoRequest p pg lim =
     \<lparr> q_path = Some (asc p), q_page = Some (asc pg), q_limit = Some (asc lim), q_search = None \<rparr>"

section \<open>Pagination\<close>

lemma slice_window:
  "0 \<le> s \<Longrightarrow> 0 \<le> l \<Longrightarrow> slice xs s (s + l) = take (nat l) (drop (nat s) xs)"
  unfolding slice_def Let_def
  by (auto simp: min_def nat_diff_distrib take_all_iff intro!: arg_cong2[where f=take])

lemma GET_listing:
  assumes "reachesListing pf root fs req entries"
  shows "GET pf root fs req =
     \<lparr> response =
         \<lparr> status = 200,
           files = slice (sortedListing pf root fs req entries)
                     ((pageOf req - 1) * limitOf req) ((pageOf req - 1) * limitOf req + limitOf req),
           total = length (sortedListing pf root fs req entries),
           page = pageOf req,
           hasMore = ((pageOf req - 1) * limitOf req + limitOf req
                        < int (length (sortedListing pf root fs req entries))),
           error = None \<rparr>,
       ops = [Access root, Stat (fullPathOf root req), Readdir (fullPathOf root req)]
             @ map (\<lambda>e. Stat (join [fullPathOf root req, d_name e])) entries,
       console = statWarnings (entryResults pf root fs req entries) \<rparr>"
  using assms
  by (auto simp: GET_def reachesListing_def Let_def pageOf_def limitOf_def fullPathOf_def
        sortedListing_def entryResults_def split: option.splits)

lemma limitOf_range: "1 \<le> limitOf req \<and> limitOf req \<le> 100"
  by (auto simp: limitOf_def safeLimitOf_def split: option.splits)

lemma pageOf_pos: "1 \<le> pageOf req"
  by (auto simp: pageOf_def safePageOf_def split: option.splits)

lemma GET_files_window:
  assumes "reachesListing pf root fs req entries"
  shows "files (response (GET pf root fs req)) =
           take (nat (limitOf req)) (drop (nat ((pageOf req - 1) * limitOf req))
             (sortedListing pf root fs req entries))"
proof -
  have "0 \<le> (pageOf req - 1) * limitOf req" "0 \<le> limitOf req"
    using limitOf_range[of req] pageOf_pos[of req] by auto
  then show ?thesis
    by (simp add: GET_listing[OF assms] slice_window)
qed


text \<open>The demonstration directory, listed from its root.\<close>

lemma demo_reaches:
  "reachesListing demoPlatform (asc ''/data'') demoFs (demoRequest ''/'' pg lim)
     (the (demoReaddir (asc ''/data/'')))"
  by (simp add: reachesListing_def fullPathOf_def safePathOf_def join_def normalize_def
        normalizeString_def isAbsolute_def resolve_def demoPlatform_def demoFs_def demoStat_def
        demoReaddir_def startsWith_def getOr_def demoRequest_def Let_def)

lemma demo_sorted:
  "map name (sortedListing demoPlatform (asc ''/data'') demoFs (demoRequest ''/'' pg lim)
     (the (demoReaddir (asc ''/data/'')))) = [asc ''docs'', asc ''a.txt'', asc ''b.txt'']"
  by (simp add: sortedListing_def entryResults_def processEntry_def sortBy_def compareItems_def
        fullPathOf_def safePathOf_def join_def normalize_def normalizeString_def asciiLower_def
        isAbsolute_def demoPlatform_def demoFs_def demoStat_def demoReaddir_def
        startsWith_def getOr_def demoRequest_def Let_def)

lemma demo_total:
  "length (sortedListing demoPlatform (asc ''/data'') demoFs (demoRequest ''/'' pg lim)
     (the (demoReaddir (asc ''/data/'')))) = 3"
proof -
  have "length (map name (sortedListing demoPlatform (asc ''/data'') demoFs (demoRequest ''/'' pg lim)
     (the (demoReaddir (asc ''/data/''))))) = 3"
    unfolding demo_sorted by simp
  then show ?thesis by simp
qed



text \<open>
  C10.  A page number past the last page (\<open>offset \<ge> total\<close>) is answered like any other:
  status 200, no error, an empty slice, \<open>hasMore = false\<close>, and \<open>total\<close> still the
  number of matching entries.
\<close>

theorem page_beyond_last:
  assumes "reachesListing pf root fs req entries"
    and "int (length (sortedListing pf root fs req entries)) \<le> (pageOf req - 1) * limitOf req"
  shows "status (response (GET pf root fs req)) = 200
     \<and> error (response (GET pf root fs req)) = None
     \<and> files (response (GET pf root fs req)) = []
     \<and> hasMore (response (GET pf root fs req)) = False
     \<and> total (response (GET pf root fs req)) = length (sortedListing pf root fs req entries)"
proof -
  have "0 < limitOf req" using limitOf_range[of req] by simp
  with assms(2) show ?thesis
    using GET_files_window[OF assms(1)] by (auto simp: GET_listing[OF assms(1)])
qed

theorem page_beyond_last_witness:
  "files (response (GET demoPlatform (asc ''/data'') demoFs (demoRequest ''/'' ''7'' ''2''))) = []
   \<and> hasMore (response (GET demoPlatform (asc ''/data'') demoFs (demoRequest ''/'' ''7'' ''2''))) = False
   \<and> total (response (GET demoPlatform (asc ''/data'') demoFs (demoRequest ''/'' ''7'' ''2''))) = 3
   \<and> status (response (GET demoPlatform (asc ''/data'') demoFs (demoRequest ''/'' ''7'' ''2''))) = 200"
proof -
  have l: "limitOf (demoRequest ''/'' ''7'' ''2'') = 2"
    by (simp add: limitOf_def safeLimitOf_def parseInt_def getOr_def demoRequest_def
          isWhiteSpace_def digitValue_def startsWith_def Let_def)
  have p: "pageOf (demoRequest ''/'' ''7'' ''2'') = 7"
    by (simp add: pageOf_def safePageOf_def parseInt_def getOr_def demoRequest_def
          isWhiteSpace_def digitValue_def startsWith_def Let_def)
  have b: "int (length (sortedListing demoPlatform (asc ''/data'') demoFs (demoRequest ''/'' ''7'' ''2'')
             (the (demoReaddir (asc ''/data/'')))))
           \<le> (pageOf (demoRequest ''/'' ''7'' ''2'') - 1) * limitOf (demoRequest ''/'' ''7'' ''2'')"
    using demo_total[of "''7''" "''2''"] by (simp add: l p)
  show ?thesis
    using page_beyond_last[OF demo_reaches[of "''7''" "''2''"] b] demo_total[of "''7''" "''2''"]
    by simp
qed

section \<open>Entries whose \<open>stat\<close> fails\<close>






section \<open>Error messages\<close>




section \<open>Paging through a directory\<close>










lemma parseDigits_acc_Some:
  "parseDigits 10 ds (Some a) \<noteq> None"
  by (induction ds arbitrary: a) (auto split: option.splits)























section \<open>Containment of the listing route\<close>



subsection \<open>Splitting and joining\<close>






subsection \<open>Normalising segments\<close>
















subsection \<open>\<open>normalize\<close>, \<open>join\<close> and \<open>resolve\<close> on segments\<close>


lemma splitOn_cons_sep: "splitOn c (c # b) = [] # splitOn c b"
  by simp












subsection \<open>The stripped request path\<close>













subsection \<open>The containment test\<close>









end
